theory Spec2Isabelle
  imports Complex_Main "HOL-Library.Word" "HOL-Library.Sublist"
begin

section \<open>Parabolic profile analyzer: the acquisition core of MAIN.py\<close>

text \<open>
  The development embeds the parts of \<^verbatim>\<open>MAIN.py\<close> that talk to the PLC and keep the
  measurement history: \<^verbatim>\<open>auto_port\<close>, \<^verbatim>\<open>read_plc\<close>, \<^verbatim>\<open>write_plc_bit\<close>,
  \<^verbatim>\<open>LivePage.read_plc\<close>, \<^verbatim>\<open>LivePage.update_table\<close>, \<^verbatim>\<open>LivePage.set_reference\<close>,
  \<^verbatim>\<open>MoreSettingsPage.save\<close>, and for reference profiles
  \<^verbatim>\<open>CreateProfileDialog.get_profile\<close>, \<^verbatim>\<open>CreateProfileDialog.save_csv\<close> and
  \<^verbatim>\<open>MainWindow.open_file\<close>.

  Conventions.
  \<^item> Python \<^verbatim>\<open>int\<close> is \<open>int\<close>; a Python \<^verbatim>\<open>float\<close> is represented by the exact rational
    it stands for (type \<open>rat\<close>), so \<^verbatim>\<open>/\<close> and \<^verbatim>\<open>-\<close> are exact and rounding is not
    modelled.
  \<^item> Python \<^verbatim>\<open>None\<close> is \<open>None\<close> of an option type.
  \<^item> The globals \<^verbatim>\<open>connected\<close> and \<^verbatim>\<open>client\<close> are the record \<open>plc\<close>: the flag and
    the list of requests issued on the link so far, oldest first. The device behind the
    pymodbus client is a parameter: it answers a request given the requests sent before.
  \<^item> A Python exception is a value of type \<open>error\<close>, carried by \<open>Raised\<close> together with
    the state at the moment of the raise.
  \<^item> Widgets that only display (labels with formatted numbers, the plot, the theme) are
    left out; the table and the RUN indicator are kept.
\<close>

subsection \<open>Configuration\<close>

text \<open>An entry such as \<^verbatim>\<open>{"type": "D", "addr": 100}\<close>.\<close>

record register =
  type :: string
  addr :: int

text \<open>The dictionary \<^verbatim>\<open>CONFIG\<close> with its fixed keys.\<close>

record config =
  baudrate :: int
  x_encoder :: register
  y_encoder :: register
  start_bit :: register
  stop_bit :: register
  run_bit :: register
  plot_start_bit :: register
  x_zero_bit :: register
  y_zero_bit :: register
  x_ppr :: int
  y_ppr :: int

definition CONFIG :: config where
  "CONFIG = \<lparr> baudrate = 9600,
     x_encoder = \<lparr> type = ''D'', addr = 100 \<rparr>,
     y_encoder = \<lparr> type = ''D'', addr = 102 \<rparr>,
     start_bit = \<lparr> type = ''M'', addr = 10 \<rparr>,
     stop_bit = \<lparr> type = ''M'', addr = 11 \<rparr>,
     run_bit = \<lparr> type = ''M'', addr = 12 \<rparr>,
     plot_start_bit = \<lparr> type = ''M'', addr = 13 \<rparr>,
     x_zero_bit = \<lparr> type = ''M'', addr = 30 \<rparr>,
     y_zero_bit = \<lparr> type = ''M'', addr = 31 \<rparr>,
     x_ppr = 1000,
     y_ppr = 1000 \<rparr>"

subsection \<open>The Modbus link\<close>

text \<open>
  The four client calls of the source, with their arguments in the source's order:
  address, then count (reads) or value (write), then unit.
\<close>

datatype request =
    ReadHoldingRegisters int nat nat
  | ReadCoils int nat nat
  | ReadDiscreteInputs int nat nat
  | WriteCoil int bool nat

text \<open>
  Modelled from the spec: the response objects of pymodbus, which the repository uses and
  does not contain. \<^verbatim>\<open>r.isError()\<close> holds exactly for the first constructor of each
  type. A holding register is a 16-bit value, read as an unsigned integer; a coil and a
  discrete input are booleans. A response that is not an error answers a request for one
  register or one bit, so it carries that item first: \<^verbatim>\<open>r.registers[0]\<close> and
  \<^verbatim>\<open>r.bits[0]\<close> are the first field, the second holds whatever follows it.
\<close>

datatype registers_response = RegistersError | Registers "16 word" "16 word list"

datatype bits_response = BitsError | Bits bool "bool list"

record client =
  read_holding_registers :: "request list \<Rightarrow> int \<Rightarrow> nat \<Rightarrow> nat \<Rightarrow> registers_response"
  read_coils :: "request list \<Rightarrow> int \<Rightarrow> nat \<Rightarrow> nat \<Rightarrow> bits_response"
  read_discrete_inputs :: "request list \<Rightarrow> int \<Rightarrow> nat \<Rightarrow> nat \<Rightarrow> bits_response"

record plc =
  connected :: bool
  sent :: "request list"

text \<open>The values \<^verbatim>\<open>read_plc\<close> returns other than \<^verbatim>\<open>None\<close>.\<close>

datatype py_value = PyInt int | PyBool bool

definition read_plc :: "client \<Rightarrow> plc \<Rightarrow> register \<Rightarrow> py_value option \<times> plc" where
  "read_plc cl p reg =
     (if \<not> connected p then (None, p)
      else
        let t = type reg; a = addr reg in
        if t \<in> set [''D'', ''C'', ''T''] then
          (let r = read_holding_registers cl (sent p) a 1 1;
               p' = p\<lparr>sent := sent p @ [ReadHoldingRegisters a 1 1]\<rparr>
           in (case r of Registers w ws \<Rightarrow> Some (PyInt (uint w)) | RegistersError \<Rightarrow> None, p'))
        else if t \<in> set [''M'', ''Y''] then
          (let r = read_coils cl (sent p) a 1 1;
               p' = p\<lparr>sent := sent p @ [ReadCoils a 1 1]\<rparr>
           in (case r of Bits b bs \<Rightarrow> Some (PyBool b) | BitsError \<Rightarrow> None, p'))
        else if t = ''X'' then
          (let r = read_discrete_inputs cl (sent p) a 1 1;
               p' = p\<lparr>sent := sent p @ [ReadDiscreteInputs a 1 1]\<rparr>
           in (case r of Bits b bs \<Rightarrow> Some (PyBool b) | BitsError \<Rightarrow> None, p'))
        else (None, p))"

definition write_plc_bit :: "plc \<Rightarrow> register \<Rightarrow> plc" where
  "write_plc_bit p reg =
     (if connected p \<and> type reg \<in> set [''M'', ''Y'']
      then p\<lparr>sent := sent p @ [WriteCoil (addr reg) True 1]\<rparr>
      else p)"

text \<open>
  The register kinds of the specification's RegisterRef, and the tag table it gives:
  D, C, T are holding words, M, Y coils, X a discrete input. The source has only the tag.
\<close>

datatype kind = HoldingWord | Coil | DiscreteInput

definition kind_of_tag :: "string \<Rightarrow> kind option" where
  "kind_of_tag t =
     (if t = ''D'' \<or> t = ''C'' \<or> t = ''T'' then Some HoldingWord
      else if t = ''M'' \<or> t = ''Y'' then Some Coil
      else if t = ''X'' then Some DiscreteInput
      else None)"

subsection \<open>Port discovery\<close>

text \<open>An entry of \<^verbatim>\<open>serial.tools.list_ports.comports()\<close>, with the two fields read.\<close>

record port =
  device :: string
  description :: string

text \<open>Python's \<^verbatim>\<open>needle in haystack\<close> on strings.\<close>

fun str_in :: "string \<Rightarrow> string \<Rightarrow> bool" where
  "str_in needle [] = (needle = [])"
| "str_in needle (c # cs) = (prefix needle (c # cs) \<or> str_in needle cs)"

fun auto_port :: "port list \<Rightarrow> string option" where
  "auto_port [] = None"
| "auto_port (p # ps) =
     (if str_in ''USB'' (description p) \<or> str_in ''Serial'' (description p)
      then Some (device p)
      else auto_port ps)"

text \<open>
  discoverPort as the specification words it: the first port whose descriptive name
  contains an entry of the allow-list, letter case ignored on both sides.
\<close>

definition lower_char :: "char \<Rightarrow> char" where
  "lower_char c =
     (let n = (of_char c :: nat) in if 65 \<le> n \<and> n \<le> 90 then char_of (n + 32) else c)"

definition matches_ignoring_case :: "string list \<Rightarrow> port \<Rightarrow> bool" where
  "matches_ignoring_case allow p =
     list_ex (\<lambda>a. str_in (map lower_char a) (map lower_char (description p))) allow"

definition discoverPort_spec :: "string list \<Rightarrow> port list \<Rightarrow> string option" where
  "discoverPort_spec allow ps = map_option device (find (matches_ignoring_case allow) ps)"

subsection \<open>The live page\<close>

text \<open>
  A table cell before \<^verbatim>\<open>str\<close> is applied to it: the empty string \<^verbatim>\<open>""\<close> that the source
  uses for a missing entry, or a number.
\<close>

datatype cell = Blank | Num rat

record live_page =
  ref_x :: "rat list"
  ref_y :: "rat list"
  act_x :: "rat list"
  act_y :: "rat list"
  run_on :: bool
  table :: "cell list list"

text \<open>\<^verbatim>\<open>LivePage.__init__\<close>: empty sequences, the indicator at RUN OFF, a table of no rows.\<close>

definition LivePage_init :: live_page where
  "LivePage_init =
     \<lparr> ref_x = [], ref_y = [], act_x = [], act_y = [], run_on = False, table = [] \<rparr>"

text \<open>\<^verbatim>\<open>xs[i] if i < len(xs) else ""\<close>\<close>

definition item_or_blank :: "rat list \<Rightarrow> nat \<Rightarrow> cell" where
  "item_or_blank xs i = (if i < length xs then Num (xs ! i) else Blank)"

text \<open>\<^verbatim>\<open>a - r if a != "" and r != "" else ""\<close>\<close>

fun diff_cell :: "cell \<Rightarrow> cell \<Rightarrow> cell" where
  "diff_cell (Num a) (Num r) = Num (a - r)"
| "diff_cell a r = Blank"

text \<open>One pass of the loop body of \<^verbatim>\<open>update_table\<close>: the six cells of row \<open>i\<close>.\<close>

definition table_row :: "live_page \<Rightarrow> nat \<Rightarrow> cell list" where
  "table_row lp i =
     (let rx = item_or_blank (ref_x lp) i;
          ry = item_or_blank (ref_y lp) i;
          ax = item_or_blank (act_x lp) i;
          ay = item_or_blank (act_y lp) i;
          dx = diff_cell ax rx;
          dy = diff_cell ay ry
      in [rx, ry, ax, ay, dx, dy])"

definition update_table :: "live_page \<Rightarrow> live_page" where
  "update_table lp =
     (let rows = max (length (ref_x lp)) (length (act_x lp))
      in lp\<lparr>table := map (table_row lp) [0..<rows]\<rparr>)"

definition set_reference :: "live_page \<Rightarrow> rat list \<Rightarrow> rat list \<Rightarrow> live_page" where
  "set_reference lp rx ry = update_table (lp\<lparr>ref_x := rx, ref_y := ry\<rparr>)"

subsection \<open>The sampler tick\<close>

datatype error =
    ZeroDivisionError | ValueError | FileNotFoundError | EmptyDataError | ParserError
  | IndexError

text \<open>How a method call ends: it returns, or it raises with the state reached so far.\<close>

datatype 'a outcome = Returned 'a | Raised error 'a

fun state_of :: "'a outcome \<Rightarrow> 'a" where
  "state_of (Returned s) = s"
| "state_of (Raised e s) = s"

text \<open>The number a Python value stands for in arithmetic: \<^verbatim>\<open>True\<close> is 1, \<^verbatim>\<open>False\<close> is 0.\<close>

fun int_of_value :: "py_value \<Rightarrow> int" where
  "int_of_value (PyInt n) = n"
| "int_of_value (PyBool b) = (if b then 1 else 0)"

text \<open>\<^verbatim>\<open>v / d\<close> with an integer divisor.\<close>

definition truediv :: "py_value \<Rightarrow> int \<Rightarrow> error + rat" where
  "truediv v d =
     (if d = 0 then Inl ZeroDivisionError else Inr (of_int (int_of_value v) / of_int d))"

text \<open>The truth value of what \<^verbatim>\<open>read_plc\<close> returned, as \<^verbatim>\<open>if run\<close> takes it.\<close>

fun truthy :: "py_value option \<Rightarrow> bool" where
  "truthy None = False"
| "truthy (Some (PyBool b)) = b"
| "truthy (Some (PyInt n)) = (n \<noteq> 0)"

text \<open>\<^verbatim>\<open>LivePage.read_plc\<close>, the slot of the polling timer.\<close>

definition LivePage_read_plc ::
  "client \<Rightarrow> config \<Rightarrow> plc \<times> live_page \<Rightarrow> (plc \<times> live_page) outcome" where
  "LivePage_read_plc cl cfg s =
     (let (p, lp) = s;
          (xr, p1) = read_plc cl p (x_encoder cfg);
          (yr, p2) = read_plc cl p1 (y_encoder cfg);
          (run, p3) = read_plc cl p2 (run_bit cfg)
      in case (xr, yr) of
           (Some xv, Some yv) \<Rightarrow>
             (case truediv xv (x_ppr cfg) of
                Inl e \<Rightarrow> Raised e (p3, lp)
              | Inr ax \<Rightarrow>
                  (case truediv yv (y_ppr cfg) of
                     Inl e \<Rightarrow> Raised e (p3, lp)
                   | Inr ay \<Rightarrow>
                       Returned (p3, update_table
                         (lp\<lparr>act_x := act_x lp @ [ax], act_y := act_y lp @ [ay],
                             run_on := truthy run\<rparr>))))
         | _ \<Rightarrow> Returned (p3, lp))"

text \<open>
  The timer fires the slot again and again; the configuration in force may differ from one
  tick to the next. An exception that leaves the slot ends the run.
\<close>

fun run_ticks ::
  "client \<Rightarrow> config list \<Rightarrow> plc \<times> live_page \<Rightarrow> (plc \<times> live_page) outcome" where
  "run_ticks cl [] s = Returned s"
| "run_ticks cl (cfg # cfgs) s =
     (case LivePage_read_plc cl cfg s of
        Returned s' \<Rightarrow> run_ticks cl cfgs s'
      | Raised e s' \<Rightarrow> Raised e s')"

subsection \<open>Scale factors\<close>

text \<open>
  \<^verbatim>\<open>MoreSettingsPage.save\<close>. The arguments are what \<^verbatim>\<open>int(self.xp.text())\<close> and
  \<^verbatim>\<open>int(self.yp.text())\<close> evaluate to, \<open>None\<close> where \<^verbatim>\<open>int\<close> raises ValueError. The first
  assignment is made before the second text is parsed.
\<close>

definition MoreSettingsPage_save :: "config \<Rightarrow> int option \<Rightarrow> int option \<Rightarrow> config outcome" where
  "MoreSettingsPage_save cfg xp yp =
     (case xp of
        None \<Rightarrow> Raised ValueError cfg
      | Some px \<Rightarrow>
          (let cfg1 = cfg\<lparr>x_ppr := px\<rparr> in
           case yp of
             None \<Rightarrow> Raised ValueError cfg1
           | Some py \<Rightarrow> Returned (cfg1\<lparr>y_ppr := py\<rparr>)))"

subsection \<open>Reference profiles on file\<close>

text \<open>
  The table of the profile dialog, row by row. A cell is \<open>None\<close> while it has no item
  (\<^verbatim>\<open>self.table.item(i, 0)\<close> is \<^verbatim>\<open>None\<close>); an item is given by what \<^verbatim>\<open>float\<close> makes of
  its text, \<open>None\<close> where \<^verbatim>\<open>float\<close> raises ValueError. The texts that \<^verbatim>\<open>float\<close> reads
  as an infinity or as not-a-number have no rational value and no counterpart here.
\<close>

type_synonym item = "rat option"

type_synonym profile_table = "(item option \<times> item option) list"

text \<open>
  The loop of \<^verbatim>\<open>CreateProfileDialog.get_profile\<close>. The X value is appended before the Y
  text is parsed, and a ValueError is swallowed.
\<close>

fun get_profile_rows :: "profile_table \<Rightarrow> rat list \<times> rat list \<Rightarrow> rat list \<times> rat list" where
  "get_profile_rows [] acc = acc"
| "get_profile_rows ((x, y) # rest) (rx, ry) =
     (case (x, y) of
        (Some tx, Some ty) \<Rightarrow>
          (case tx of
             None \<Rightarrow> get_profile_rows rest (rx, ry)
           | Some vx \<Rightarrow>
               (case ty of
                  None \<Rightarrow> get_profile_rows rest (rx @ [vx], ry)
                | Some vy \<Rightarrow> get_profile_rows rest (rx @ [vx], ry @ [vy])))
      | _ \<Rightarrow> get_profile_rows rest (rx, ry))"

definition get_profile :: "profile_table \<Rightarrow> rat list \<times> rat list" where
  "get_profile t = get_profile_rows t ([], [])"

text \<open>
  Modelled from the spec: the pandas calls \<^verbatim>\<open>DataFrame\<close>, \<^verbatim>\<open>to_csv\<close>, \<^verbatim>\<open>read_csv\<close> and
  \<^verbatim>\<open>iloc\<close>, which the repository uses and does not contain. A frame is its column
  labels and its columns, in order. A file is a header row and data rows of numbers;
  a number written is the number read back, the text form between the two is not
  modelled. \<^verbatim>\<open>DataFrame\<close> refuses columns of unequal length with ValueError.
  \<^verbatim>\<open>to_csv(path, index=False)\<close> writes the labels as header and one row per position.
  \<^verbatim>\<open>read_csv\<close> raises EmptyDataError on a file without columns; on a file whose rows are
  all as wide as the header it gives the columns in file order. A file with a row of
  another width is outside the model and is reported as ParserError: pandas raises that
  for a wider row in general, and pads a narrower row with missing values, which the
  numbers of the model lack.
  \<^verbatim>\<open>df.iloc[:, j]\<close> raises IndexError when there is no column \<open>j\<close>.
\<close>

record dataframe =
  labels :: "string list"
  columns :: "rat list list"

record csv_file =
  header :: "string list"
  rows :: "rat list list"

type_synonym files = "string \<rightharpoonup> csv_file"

definition DataFrame ::
  "string \<Rightarrow> rat list \<Rightarrow> string \<Rightarrow> rat list \<Rightarrow> error + dataframe" where
  "DataFrame l1 c1 l2 c2 =
     (if length c1 \<noteq> length c2 then Inl ValueError
      else Inr \<lparr> labels = [l1, l2], columns = [c1, c2] \<rparr>)"

definition to_csv :: "dataframe \<Rightarrow> csv_file" where
  "to_csv df =
     (let n = (case columns df of [] \<Rightarrow> 0 | c # cs \<Rightarrow> length c)
      in \<lparr> header = labels df,
           rows = map (\<lambda>i. map (\<lambda>c. c ! i) (columns df)) [0..<n] \<rparr>)"

definition read_csv :: "csv_file \<Rightarrow> error + rat list list" where
  "read_csv f =
     (if header f = [] then Inl EmptyDataError
      else if list_ex (\<lambda>r. length r \<noteq> length (header f)) (rows f) then Inl ParserError
      else Inr (map (\<lambda>j. map (\<lambda>r. r ! j) (rows f)) [0..<length (header f)]))"

definition iloc :: "rat list list \<Rightarrow> nat \<Rightarrow> error + rat list" where
  "iloc cols j = (if j < length cols then Inr (cols ! j) else Inl IndexError)"

text \<open>
  \<^verbatim>\<open>CreateProfileDialog.save_csv\<close>. The last argument is the path the save dialog
  returns, empty when the dialog is cancelled. The message boxes only display.
\<close>

definition save_csv :: "files \<Rightarrow> profile_table \<Rightarrow> string \<Rightarrow> files outcome" where
  "save_csv fs t path =
     (let (rx, ry) = get_profile t in
      if rx = [] then Returned fs
      else if path = [] then Returned fs
      else
        (case DataFrame ''Reference_X'' rx ''Reference_Y'' ry of
           Inl e \<Rightarrow> Raised e fs
         | Inr df \<Rightarrow> Returned (fs(path \<mapsto> to_csv df))))"

text \<open>
  \<^verbatim>\<open>MainWindow.open_file\<close>, for what it does to the live page. The last argument is the
  path the open dialog returns, empty when the dialog is cancelled. The other branch, for
  a project file (.json), works on \<^verbatim>\<open>CONFIG\<close> and not on the page; it is not part of
  the model, where the page comes back as it was.
\<close>

definition open_file :: "files \<Rightarrow> live_page \<Rightarrow> string \<Rightarrow> live_page outcome" where
  "open_file fs lp path =
     (if suffix ''.csv'' path then
        (case fs path of
           None \<Rightarrow> Raised FileNotFoundError lp
         | Some f \<Rightarrow>
             (case read_csv f of
                Inl e \<Rightarrow> Raised e lp
              | Inr df \<Rightarrow>
                  (case iloc df 0 of
                     Inl e \<Rightarrow> Raised e lp
                   | Inr c0 \<Rightarrow>
                       (case iloc df 1 of
                          Inl e \<Rightarrow> Raised e lp
                        | Inr c1 \<Rightarrow> Returned (set_reference lp c0 c1)))))
      else Returned lp)"

text \<open>The dialog table that holds a profile: one row per pair, both cells numeric.\<close>

definition authored :: "(rat \<times> rat) list \<Rightarrow> profile_table" where
  "authored prof = map (\<lambda>(x, y). (Some (Some x), Some (Some y))) prof"

subsection \<open>Concrete devices and pages for the examples\<close>

text \<open>
  A device whose holding registers 100 and 102 hold 500 and 250 and whose coils are all
  set, and a device that answers every request with an error response.
\<close>

definition example_client :: client where
  "example_client =
     \<lparr> read_holding_registers =
         (\<lambda>tr a n u. if a = 100 then Registers 500 [] else if a = 102 then Registers 250 []
                     else RegistersError),
       read_coils = (\<lambda>tr a n u. Bits True []),
       read_discrete_inputs = (\<lambda>tr a n u. BitsError) \<rparr>"

definition silent_client :: client where
  "silent_client =
     \<lparr> read_holding_registers = (\<lambda>tr a n u. RegistersError),
       read_coils = (\<lambda>tr a n u. BitsError),
       read_discrete_inputs = (\<lambda>tr a n u. BitsError) \<rparr>"

definition online :: plc where
  "online = \<lparr> connected = True, sent = [] \<rparr>"

definition offline :: plc where
  "offline = \<lparr> connected = False, sent = [] \<rparr>"

definition one_sample :: live_page where
  "one_sample = LivePage_init\<lparr>act_x := [1 / 2], act_y := [1 / 4]\<rparr>"

definition scenario_page :: live_page where
  "scenario_page =
     LivePage_init\<lparr>ref_x := [0, 1], ref_y := [0, 2], act_x := [1 / 10], act_y := [1 / 10]\<rparr>"

definition two_ports :: "port list" where
  "two_ports = [\<lparr>device = ''COM1'', description = ''Communications Port''\<rparr>,
                \<lparr>device = ''COM3'', description = ''USB-SERIAL CH340''\<rparr>,
                \<lparr>device = ''COM4'', description = ''Standard Serial over Bluetooth link''\<rparr>]"

text \<open>
  The test \<^verbatim>\<open>auto_port\<close> applies to a description, said with the list library's notion of
  a contiguous sublist: letter case counts.
\<close>

abbreviation adapter_name :: "string \<Rightarrow> bool" where
  "adapter_name d \<equiv> sublist ''USB'' d \<or> sublist ''Serial'' d"

section \<open>Properties\<close>

subsection \<open>The sampler tick\<close>

text \<open>
  Claim C1. A tick in which the read of the x encoder or the read of the y encoder gives
  \<^verbatim>\<open>None\<close> returns normally, and the live page after it is the live page before it: both
  measurement sequences keep their length and their contents, and nothing is raised.
\<close>

theorem tick_abandoned_on_no_data:
  assumes "fst (read_plc cl p (x_encoder cfg)) = None \<or>
           fst (read_plc cl (snd (read_plc cl p (x_encoder cfg))) (y_encoder cfg)) = None"
  shows "(\<exists>p'. LivePage_read_plc cl cfg (p, lp) = Returned (p', lp)) \<and>
         act_x (snd (state_of (LivePage_read_plc cl cfg (p, lp)))) = act_x lp \<and>
         act_y (snd (state_of (LivePage_read_plc cl cfg (p, lp)))) = act_y lp"
  using assms
  by (auto simp: LivePage_read_plc_def Let_def split: prod.splits option.splits)

text \<open>
  On a link that is open to a device answering with error responses, a page holding one
  sample comes out of the tick as it went in; the three requests were sent.
\<close>

theorem tick_abandoned_on_no_data_witness:
  "fst (read_plc silent_client online (x_encoder CONFIG)) = None \<and>
   LivePage_read_plc silent_client CONFIG (online, one_sample) =
     Returned (online\<lparr>sent := [ReadHoldingRegisters 100 1 1, ReadHoldingRegisters 102 1 1,
                                 ReadCoils 12 1 1]\<rparr>, one_sample)"
proof -
  have h: "fst (read_plc silent_client online (x_encoder CONFIG)) = None"
    by (simp add: read_plc_def silent_client_def online_def CONFIG_def)
  from tick_abandoned_on_no_data [of silent_client online CONFIG one_sample] h
  obtain p' where
    "LivePage_read_plc silent_client CONFIG (online, one_sample) = Returned (p', one_sample)"
    by blast
  moreover have "fst (state_of (LivePage_read_plc silent_client CONFIG (online, one_sample))) =
     online\<lparr>sent := [ReadHoldingRegisters 100 1 1, ReadHoldingRegisters 102 1 1,
                     ReadCoils 12 1 1]\<rparr>"
    by (simp add: LivePage_read_plc_def read_plc_def silent_client_def online_def CONFIG_def)
  ultimately show ?thesis using h by simp
qed

text \<open>
  Claim C2. A tick whose two encoder reads give the raw values \<open>raw_x\<close> and \<open>raw_y\<close>
  returns and appends \<open>raw_x / x_ppr\<close> to the actual-X sequence and \<open>raw_y / y_ppr\<close> to the
  actual-Y sequence. The quotient exists when the scale factor is not zero: the
  specification takes scale factors to be positive, and with a zero one the source raises
  ZeroDivisionError before it appends anything.
\<close>

theorem tick_appends_scaled_values:
  assumes "read_plc cl p (x_encoder cfg) = (Some raw_x, p1)"
      and "read_plc cl p1 (y_encoder cfg) = (Some raw_y, p2)"
      and "x_ppr cfg \<noteq> 0" and "y_ppr cfg \<noteq> 0"
  shows "\<exists>p3 lp'. LivePage_read_plc cl cfg (p, lp) = Returned (p3, lp') \<and>
           act_x lp' = act_x lp @ [of_int (int_of_value raw_x) / of_int (x_ppr cfg)] \<and>
           act_y lp' = act_y lp @ [of_int (int_of_value raw_y) / of_int (y_ppr cfg)]"
  using assms
  by (auto simp: LivePage_read_plc_def Let_def truediv_def update_table_def split: prod.splits)

text \<open>
  The scenario of the specification: scale factors 1000 and 1000, raw reads 500 and 250,
  appended values 0.5 and 0.25.
\<close>

theorem tick_appends_scaled_values_witness:
  "read_plc example_client online (x_encoder CONFIG) =
     (Some (PyInt 500), online\<lparr>sent := [ReadHoldingRegisters 100 1 1]\<rparr>) \<and>
   read_plc example_client (online\<lparr>sent := [ReadHoldingRegisters 100 1 1]\<rparr>)
       (y_encoder CONFIG) =
     (Some (PyInt 250),
      online\<lparr>sent := [ReadHoldingRegisters 100 1 1, ReadHoldingRegisters 102 1 1]\<rparr>) \<and>
   x_ppr CONFIG = 1000 \<and> y_ppr CONFIG = 1000 \<and>
   (\<exists>p3 lp'. LivePage_read_plc example_client CONFIG (online, LivePage_init) =
        Returned (p3, lp') \<and>
      act_x lp' = [1 / 2] \<and> act_y lp' = [1 / 4])"
proof -
  have x: "read_plc example_client online (x_encoder CONFIG) =
     (Some (PyInt 500), online\<lparr>sent := [ReadHoldingRegisters 100 1 1]\<rparr>)"
    by (simp add: read_plc_def example_client_def online_def CONFIG_def)
  have y: "read_plc example_client (online\<lparr>sent := [ReadHoldingRegisters 100 1 1]\<rparr>)
       (y_encoder CONFIG) =
     (Some (PyInt 250),
      online\<lparr>sent := [ReadHoldingRegisters 100 1 1, ReadHoldingRegisters 102 1 1]\<rparr>)"
    by (simp add: read_plc_def example_client_def online_def CONFIG_def)
  have px: "x_ppr CONFIG \<noteq> 0" and py: "y_ppr CONFIG \<noteq> 0"
    by (simp_all add: CONFIG_def)
  have c: "x_ppr CONFIG = 1000 \<and> y_ppr CONFIG = 1000"
    by (simp add: CONFIG_def)
  from tick_appends_scaled_values [OF x y px py, of LivePage_init]
  have "\<exists>p3 lp'. LivePage_read_plc example_client CONFIG (online, LivePage_init) =
        Returned (p3, lp') \<and>
      act_x lp' = [1 / 2] \<and> act_y lp' = [1 / 4]"
    by (simp add: c LivePage_init_def)
  with x y c show ?thesis by simp
qed

text \<open>What one tick can do to the page: append one value to each sequence, nothing, or raise.\<close>

lemma tick_history_cases:
  "(\<exists>p' ax ay t r. LivePage_read_plc cl cfg (p, lp) =
        Returned (p', lp\<lparr>act_x := act_x lp @ [ax], act_y := act_y lp @ [ay],
                          run_on := r, table := t\<rparr>)) \<or>
   (\<exists>p'. LivePage_read_plc cl cfg (p, lp) = Returned (p', lp)) \<or>
   (\<exists>p'. LivePage_read_plc cl cfg (p, lp) = Raised ZeroDivisionError (p', lp))"
  by (auto simp: LivePage_read_plc_def Let_def truediv_def update_table_def
           split: prod.splits option.splits)

lemma tick_lengths:
  assumes "length (act_x lp) = length (act_y lp)"
  shows "length (act_x (snd (state_of (LivePage_read_plc cl cfg (p, lp))))) =
         length (act_y (snd (state_of (LivePage_read_plc cl cfg (p, lp)))))"
  using tick_history_cases [of cl cfg p lp] assms by auto

lemma run_ticks_lengths:
  "length (act_x (snd s)) = length (act_y (snd s)) \<Longrightarrow>
   length (act_x (snd (state_of (run_ticks cl cfgs s)))) =
   length (act_y (snd (state_of (run_ticks cl cfgs s))))"
proof (induction cfgs arbitrary: s)
  case Nil
  then show ?case by simp
next
  case (Cons cfg cfgs)
  obtain p lp where s: "s = (p, lp)" by (cases s)
  with Cons.prems have "length (act_x lp) = length (act_y lp)" by simp
  from tick_lengths [OF this, of cl cfg p]
  have t: "length (act_x (snd (state_of (LivePage_read_plc cl cfg s)))) =
           length (act_y (snd (state_of (LivePage_read_plc cl cfg s))))"
    by (simp add: s)
  show ?case
  proof (cases "LivePage_read_plc cl cfg s")
    case (Returned s')
    with t have "length (act_x (snd s')) = length (act_y (snd s'))" by simp
    from Cons.IH [OF this] Returned show ?thesis by simp
  next
    case (Raised e s')
    with t show ?thesis by simp
  qed
qed

text \<open>
  Claim C10. Whatever a tick does, it either appends exactly one value at the end of each of
  the two sequences or leaves both as they were, so sequences of equal length stay of equal
  length; and after any number of ticks from the freshly built page, under any
  configurations, the two sequences have the same length.
\<close>

theorem tick_keeps_histories_aligned:
  "((\<exists>ax ay. act_x (snd (state_of (LivePage_read_plc cl cfg (p, lp)))) = act_x lp @ [ax] \<and>
             act_y (snd (state_of (LivePage_read_plc cl cfg (p, lp)))) = act_y lp @ [ay]) \<or>
    (act_x (snd (state_of (LivePage_read_plc cl cfg (p, lp)))) = act_x lp \<and>
     act_y (snd (state_of (LivePage_read_plc cl cfg (p, lp)))) = act_y lp)) \<and>
   (length (act_x lp) = length (act_y lp) \<longrightarrow>
      length (act_x (snd (state_of (LivePage_read_plc cl cfg (p, lp))))) =
      length (act_y (snd (state_of (LivePage_read_plc cl cfg (p, lp)))))) \<and>
   length (act_x (snd (state_of (run_ticks cl cfgs (p, LivePage_init))))) =
   length (act_y (snd (state_of (run_ticks cl cfgs (p, LivePage_init)))))"
proof -
  have a: "(\<exists>ax ay. act_x (snd (state_of (LivePage_read_plc cl cfg (p, lp)))) = act_x lp @ [ax] \<and>
             act_y (snd (state_of (LivePage_read_plc cl cfg (p, lp)))) = act_y lp @ [ay]) \<or>
    (act_x (snd (state_of (LivePage_read_plc cl cfg (p, lp)))) = act_x lp \<and>
     act_y (snd (state_of (LivePage_read_plc cl cfg (p, lp)))) = act_y lp)"
    using tick_history_cases [of cl cfg p lp] by auto
  have b: "length (act_x lp) = length (act_y lp) \<longrightarrow>
      length (act_x (snd (state_of (LivePage_read_plc cl cfg (p, lp))))) =
      length (act_y (snd (state_of (LivePage_read_plc cl cfg (p, lp)))))"
    using tick_lengths by blast
  have c: "length (act_x (snd (state_of (run_ticks cl cfgs (p, LivePage_init))))) =
   length (act_y (snd (state_of (run_ticks cl cfgs (p, LivePage_init)))))"
    by (rule run_ticks_lengths) (simp add: LivePage_init_def)
  from a b c show ?thesis by blast
qed

text \<open>
  From a page with one sample, a tick with good reads gives two samples in each sequence,
  and a tick against the silent device leaves one in each.
\<close>

theorem tick_keeps_histories_aligned_witness:
  "length (act_x one_sample) = length (act_y one_sample) \<and>
   act_x (snd (state_of (LivePage_read_plc example_client CONFIG (online, one_sample)))) =
     [1 / 2, 1 / 2] \<and>
   act_y (snd (state_of (LivePage_read_plc example_client CONFIG (online, one_sample)))) =
     [1 / 4, 1 / 4] \<and>
   act_x (snd (state_of (LivePage_read_plc silent_client CONFIG (online, one_sample)))) =
     [1 / 2] \<and>
   act_y (snd (state_of (LivePage_read_plc silent_client CONFIG (online, one_sample)))) =
     [1 / 4] \<and>
   length (act_x (snd (state_of
       (LivePage_read_plc example_client CONFIG (online, one_sample))))) =
   length (act_y (snd (state_of
       (LivePage_read_plc example_client CONFIG (online, one_sample)))))"
proof -
  have h: "length (act_x one_sample) = length (act_y one_sample)"
    by (simp add: one_sample_def LivePage_init_def)
  have e: "act_x (snd (state_of (LivePage_read_plc example_client CONFIG (online, one_sample)))) =
     [1 / 2, 1 / 2]"
     "act_y (snd (state_of (LivePage_read_plc example_client CONFIG (online, one_sample)))) =
     [1 / 4, 1 / 4]"
    by (simp_all add: LivePage_read_plc_def read_plc_def truediv_def update_table_def
          example_client_def online_def one_sample_def LivePage_init_def CONFIG_def)
  have s: "act_x (snd (state_of (LivePage_read_plc silent_client CONFIG (online, one_sample)))) =
     [1 / 2]"
     "act_y (snd (state_of (LivePage_read_plc silent_client CONFIG (online, one_sample)))) =
     [1 / 4]"
    by (simp_all add: LivePage_read_plc_def read_plc_def
          silent_client_def online_def one_sample_def LivePage_init_def CONFIG_def)
  from tick_keeps_histories_aligned [of example_client CONFIG online one_sample "[]"] h
  have "length (act_x (snd (state_of
            (LivePage_read_plc example_client CONFIG (online, one_sample))))) =
        length (act_y (snd (state_of
            (LivePage_read_plc example_client CONFIG (online, one_sample)))))"
    by blast
  with h e s show ?thesis by simp
qed

subsection \<open>The deviation table\<close>

lemma table_update_table_nth:
  "i < max (length (ref_x lp)) (length (act_x lp)) \<Longrightarrow>
     table (update_table lp) ! i = table_row lp i"
  by (simp add: update_table_def Let_def)

lemma length_table_update_table:
  "length (table (update_table lp)) = max (length (ref_x lp)) (length (act_x lp))"
  by (simp add: update_table_def Let_def)

lemma table_row_diff_x:
  "table_row lp i ! 4 = diff_cell (item_or_blank (act_x lp) i) (item_or_blank (ref_x lp) i)"
  by (simp add: table_row_def Let_def)

lemma table_row_diff_y:
  "table_row lp i ! 5 = diff_cell (item_or_blank (act_y lp) i) (item_or_blank (ref_y lp) i)"
  by (simp add: table_row_def Let_def)

lemma diff_item_or_blank:
  "diff_cell (item_or_blank as i) (item_or_blank rs i) =
     (if i < length as \<and> i < length rs then Num (as ! i - rs ! i) else Blank)"
  by (simp add: item_or_blank_def)

text \<open>
  Claim C3. For every index \<open>i\<close> that the measurement history or the reference sequence
  reaches, the table has a row \<open>i\<close>; its Diff X cell (column 4) holds
  \<open>actual_x(i) - ref_x(i)\<close> when both sequences reach \<open>i\<close> and is blank otherwise, and
  likewise its Diff Y cell (column 5) for the Y sequences. A blank cell is not the number
  zero; the numbers of the model have no NaN.
\<close>

theorem update_table_deviation:
  assumes "i < length (act_x lp) \<or> i < length (ref_x lp)"
  shows "i < length (table (update_table lp)) \<and>
         table (update_table lp) ! i ! 4 =
           (if i < length (act_x lp) \<and> i < length (ref_x lp)
            then Num (act_x lp ! i - ref_x lp ! i) else Blank) \<and>
         table (update_table lp) ! i ! 5 =
           (if i < length (act_y lp) \<and> i < length (ref_y lp)
            then Num (act_y lp ! i - ref_y lp ! i) else Blank) \<and>
         Blank \<noteq> Num 0"
proof -
  from assms have m: "i < max (length (ref_x lp)) (length (act_x lp))" by auto
  then have "table (update_table lp) ! i = table_row lp i"
    by (rule table_update_table_nth)
  with m show ?thesis
    by (simp add: length_table_update_table table_row_diff_x table_row_diff_y
          diff_item_or_blank)
qed

text \<open>
  The scenario of the specification: reference (0,0), (1,2) and history (0.1,0.1) give
  differences 0.1 and 0.1 in row 0 and blank difference cells in row 1.
\<close>

theorem update_table_deviation_witness:
  "(0 < length (act_x scenario_page) \<or> 0 < length (ref_x scenario_page)) \<and>
   (1 < length (act_x scenario_page) \<or> 1 < length (ref_x scenario_page)) \<and>
   table (update_table scenario_page) ! 0 ! 4 = Num (1 / 10) \<and>
   table (update_table scenario_page) ! 0 ! 5 = Num (1 / 10) \<and>
   table (update_table scenario_page) ! 1 ! 4 = Blank \<and>
   table (update_table scenario_page) ! 1 ! 5 = Blank"
proof -
  have l: "length (act_x scenario_page) = 1" "length (ref_x scenario_page) = 2"
          "length (act_y scenario_page) = 1" "length (ref_y scenario_page) = 2"
    by (simp_all add: scenario_page_def LivePage_init_def)
  have v: "act_x scenario_page ! 0 = 1 / 10" "ref_x scenario_page ! 0 = 0"
          "act_y scenario_page ! 0 = 1 / 10" "ref_y scenario_page ! 0 = 0"
    by (simp_all add: scenario_page_def LivePage_init_def)
  have h0: "0 < length (act_x scenario_page) \<or> 0 < length (ref_x scenario_page)"
    by (simp add: l)
  have h1: "1 < length (act_x scenario_page) \<or> 1 < length (ref_x scenario_page)"
    by (simp add: l)
  from update_table_deviation [OF h0] update_table_deviation [OF h1] h0 h1
  show ?thesis by (simp add: l v)
qed

subsection \<open>Register access\<close>

text \<open>
  Claim C4. With the link not connected, \<^verbatim>\<open>read_plc\<close> returns \<^verbatim>\<open>None\<close> for every register
  entry and leaves the link as it was: no request is issued.
\<close>

theorem read_plc_disconnected:
  "\<not> connected p \<Longrightarrow> read_plc cl p reg = (None, p)"
  by (simp add: read_plc_def)

theorem read_plc_disconnected_witness:
  "\<not> connected offline \<and>
   read_plc example_client offline (x_encoder CONFIG) = (None, offline) \<and>
   sent (snd (read_plc example_client offline (x_encoder CONFIG))) = []"
proof -
  have h: "\<not> connected offline" by (simp add: offline_def)
  from read_plc_disconnected [OF h, of example_client "x_encoder CONFIG"] h
  show ?thesis by (simp add: offline_def)
qed

text \<open>
  Claim C5. With the link connected, the tag decides the request. For D, C or T one holding
  register is read at the entry's address, and a value that comes back is an integer
  between 0 and 65535. For M or Y one coil is read, for X one discrete input, and what
  comes back is a boolean. In each case an error response gives \<^verbatim>\<open>None\<close>; the call
  returns in every case.
\<close>

theorem read_plc_dispatch:
  assumes "connected p"
  shows "(type reg \<in> {''D'', ''C'', ''T''} \<longrightarrow>
            read_plc cl p reg =
              (case read_holding_registers cl (sent p) (addr reg) 1 1 of
                 RegistersError \<Rightarrow> None
               | Registers w ws \<Rightarrow> Some (PyInt (uint w)),
               p\<lparr>sent := sent p @ [ReadHoldingRegisters (addr reg) 1 1]\<rparr>) \<and>
            (\<forall>v. fst (read_plc cl p reg) = Some v \<longrightarrow>
                 (\<exists>n. v = PyInt n \<and> 0 \<le> n \<and> n \<le> 65535))) \<and>
         (type reg \<in> {''M'', ''Y''} \<longrightarrow>
            read_plc cl p reg =
              (case read_coils cl (sent p) (addr reg) 1 1 of
                 BitsError \<Rightarrow> None
               | Bits b bs \<Rightarrow> Some (PyBool b),
               p\<lparr>sent := sent p @ [ReadCoils (addr reg) 1 1]\<rparr>)) \<and>
         (type reg = ''X'' \<longrightarrow>
            read_plc cl p reg =
              (case read_discrete_inputs cl (sent p) (addr reg) 1 1 of
                 BitsError \<Rightarrow> None
               | Bits b bs \<Rightarrow> Some (PyBool b),
               p\<lparr>sent := sent p @ [ReadDiscreteInputs (addr reg) 1 1]\<rparr>))"
proof -
  have bound: "0 \<le> uint w \<and> uint w \<le> 65535" for w :: "16 word"
    using uint_bounded [of w] by simp
  show ?thesis
    using assms bound
    by (auto simp: read_plc_def Let_def split: registers_response.splits)
qed

theorem read_plc_dispatch_witness:
  "connected online \<and>
   type (x_encoder CONFIG) \<in> {''D'', ''C'', ''T''} \<and>
   read_plc example_client online (x_encoder CONFIG) =
     (Some (PyInt 500), online\<lparr>sent := [ReadHoldingRegisters 100 1 1]\<rparr>) \<and>
   read_plc silent_client online (x_encoder CONFIG) =
     (None, online\<lparr>sent := [ReadHoldingRegisters 100 1 1]\<rparr>) \<and>
   type (run_bit CONFIG) \<in> {''M'', ''Y''} \<and>
   read_plc example_client online (run_bit CONFIG) =
     (Some (PyBool True), online\<lparr>sent := [ReadCoils 12 1 1]\<rparr>) \<and>
   read_plc silent_client online \<lparr>type = ''X'', addr = 7\<rparr> =
     (None, online\<lparr>sent := [ReadDiscreteInputs 7 1 1]\<rparr>)"
proof -
  have h: "connected online" by (simp add: online_def)
  have s: "sent online = []" by (simp add: online_def)
  from read_plc_dispatch [OF h, of "x_encoder CONFIG" example_client]
       read_plc_dispatch [OF h, of "x_encoder CONFIG" silent_client]
       read_plc_dispatch [OF h, of "run_bit CONFIG" example_client]
       read_plc_dispatch [OF h, of "\<lparr>type = ''X'', addr = 7\<rparr>" silent_client]
       h
  show ?thesis
    by (simp add: s CONFIG_def example_client_def silent_client_def)
qed

text \<open>
  Claim C8. \<^verbatim>\<open>write_plc_bit\<close> issues one request, a write of \<^verbatim>\<open>True\<close> to the coil at the
  entry's address, when the link is connected and the entry's kind is Coil. For an entry
  of any other kind, and for every entry when the link is not connected, it issues nothing
  and changes nothing.
\<close>

theorem write_plc_bit_coil_only:
  "(connected p \<and> kind_of_tag (type reg) = Some Coil \<longrightarrow>
      write_plc_bit p reg = p\<lparr>sent := sent p @ [WriteCoil (addr reg) True 1]\<rparr>) \<and>
   (kind_of_tag (type reg) \<noteq> Some Coil \<longrightarrow> write_plc_bit p reg = p) \<and>
   (\<not> connected p \<longrightarrow> write_plc_bit p reg = p)"
  by (auto simp: write_plc_bit_def kind_of_tag_def)

theorem write_plc_bit_coil_only_witness:
  "connected online \<and> kind_of_tag (type (x_zero_bit CONFIG)) = Some Coil \<and>
   write_plc_bit online (x_zero_bit CONFIG) = online\<lparr>sent := [WriteCoil 30 True 1]\<rparr> \<and>
   kind_of_tag (type (x_encoder CONFIG)) \<noteq> Some Coil \<and>
   write_plc_bit online (x_encoder CONFIG) = online \<and>
   \<not> connected offline \<and>
   write_plc_bit offline (x_zero_bit CONFIG) = offline"
proof -
  have h: "connected online" "\<not> connected offline" "sent online = []"
    by (simp_all add: online_def offline_def)
  have k: "kind_of_tag (type (x_zero_bit CONFIG)) = Some Coil"
          "kind_of_tag (type (x_encoder CONFIG)) \<noteq> Some Coil"
    by (simp_all add: kind_of_tag_def CONFIG_def)
  have a: "addr (x_zero_bit CONFIG) = 30" by (simp add: CONFIG_def)
  from write_plc_bit_coil_only [of online "x_zero_bit CONFIG"]
       write_plc_bit_coil_only [of online "x_encoder CONFIG"]
       write_plc_bit_coil_only [of offline "x_zero_bit CONFIG"]
       h k a
  show ?thesis by simp
qed

subsection \<open>Port discovery\<close>

lemma str_in_sublist: "str_in xs ys = sublist xs ys"
  by (induction ys) (simp_all add: sublist_Cons_right)

lemma auto_port_find:
  "auto_port ps = map_option device (find (\<lambda>q. adapter_name (description q)) ps)"
  by (induction ps) (simp_all add: str_in_sublist)

text \<open>
  Claim C7, as the specification states it, fails: the source compares with letter case.
  A port described as RS-232 SERIAL ADAPTER contains the allow-list entry Serial when case
  is ignored, so discoverPort as specified selects it, and \<^verbatim>\<open>auto_port\<close> returns
  \<^verbatim>\<open>None\<close>.
\<close>

theorem auto_port_case_sensitive_counterexample:
  "auto_port [\<lparr>device = ''COM1'', description = ''RS-232 SERIAL ADAPTER''\<rparr>] = None \<and>
   discoverPort_spec [''USB'', ''Serial'']
     [\<lparr>device = ''COM1'', description = ''RS-232 SERIAL ADAPTER''\<rparr>] = Some ''COM1''"
  by code_simp

text \<open>
  Claim C7, amended. \<^verbatim>\<open>auto_port\<close> returns the device of the first port, in the order of
  enumeration, whose description contains USB or Serial written exactly so, and it returns
  \<^verbatim>\<open>None\<close> exactly when no description does.
\<close>

theorem auto_port_first_match:
  "(auto_port ps = None \<longleftrightarrow> (\<forall>q \<in> set ps. \<not> adapter_name (description q))) \<and>
   (\<forall>d. auto_port ps = Some d \<longleftrightarrow>
      (\<exists>i < length ps. d = device (ps ! i) \<and> adapter_name (description (ps ! i)) \<and>
          (\<forall>j < i. \<not> adapter_name (description (ps ! j)))))"
proof -
  have n: "auto_port ps = None \<longleftrightarrow> (\<forall>q \<in> set ps. \<not> adapter_name (description q))"
    by (auto simp: auto_port_find find_None_iff)
  have s: "auto_port ps = Some d \<longleftrightarrow>
      (\<exists>i < length ps. d = device (ps ! i) \<and> adapter_name (description (ps ! i)) \<and>
          (\<forall>j < i. \<not> adapter_name (description (ps ! j))))" for d
    unfolding auto_port_find map_option_eq_Some find_Some_iff by blast
  from n s show ?thesis by blast
qed

text \<open>
  Of three ports the second is the first whose description contains USB; a lone port
  described as Communications Port gives \<^verbatim>\<open>None\<close>.
\<close>

theorem auto_port_first_match_witness:
  "auto_port two_ports = Some ''COM3'' \<and>
   device (two_ports ! 1) = ''COM3'' \<and>
   adapter_name (description (two_ports ! 1)) \<and>
   \<not> adapter_name (description (two_ports ! 0)) \<and>
   auto_port [\<lparr>device = ''COM1'', description = ''Communications Port''\<rparr>] = None \<and>
   \<not> adapter_name ''Communications Port''"
proof -
  have a: "auto_port two_ports = Some ''COM3''"
    by (simp add: two_ports_def)
  have b: "auto_port [\<lparr>device = ''COM1'', description = ''Communications Port''\<rparr>] = None"
    by simp
  from auto_port_first_match [of two_ports] a
  obtain i where i: "i < length two_ports" "''COM3'' = device (two_ports ! i)"
      "adapter_name (description (two_ports ! i))"
      "\<forall>j < i. \<not> adapter_name (description (two_ports ! j))"
    by blast
  have d: "device (two_ports ! 0) = ''COM1''" "device (two_ports ! 1) = ''COM3''"
      "device (two_ports ! 2) = ''COM4''" "length two_ports = 3"
    by (simp_all add: two_ports_def)
  from i(1) d(4) have "i = 0 \<or> i = 1 \<or> i = 2" by auto
  with i(2) d have i1: "i = 1" by auto
  with i(3) have m: "adapter_name (description (two_ports ! 1))" by simp
  from i(4) i1 have n: "\<not> adapter_name (description (two_ports ! 0))" by simp
  from auto_port_first_match [of "[\<lparr>device = ''COM1'', description = ''Communications Port''\<rparr>]"] b
  have "\<not> adapter_name ''Communications Port''" by simp
  with a b d(2) m n show ?thesis by simp
qed

subsection \<open>Scale factors\<close>

text \<open>
  Claim C6, as the specification states it, fails: \<^verbatim>\<open>MoreSettingsPage.save\<close> checks
  nothing. Saving the texts 0 and 1000 over the default configuration returns normally and
  makes 0 the X scale factor; the configuration in force before is not kept.
\<close>

theorem save_zero_scale_counterexample:
  "MoreSettingsPage_save CONFIG (Some 0) (Some 1000) = Returned (CONFIG\<lparr>x_ppr := 0\<rparr>) \<and>
   x_ppr CONFIG = 1000 \<and> CONFIG\<lparr>x_ppr := 0\<rparr> \<noteq> CONFIG"
  by (simp add: MoreSettingsPage_save_def CONFIG_def)

text \<open>
  Claim C6, amended. When both texts are integers, \<^verbatim>\<open>save\<close> returns and stores them as
  the X and Y scale factors whatever their sign, zero included; every other entry of the
  configuration stays.
\<close>

theorem save_stores_any_integers:
  "MoreSettingsPage_save cfg (Some px) (Some py) = Returned (cfg\<lparr>x_ppr := px, y_ppr := py\<rparr>)"
  by (simp add: MoreSettingsPage_save_def)

theorem save_stores_any_integers_witness:
  "MoreSettingsPage_save CONFIG (Some (- 5)) (Some 0) = Returned (CONFIG\<lparr>x_ppr := - 5, y_ppr := 0\<rparr>) \<and>
   x_ppr (state_of (MoreSettingsPage_save CONFIG (Some (- 5)) (Some 0))) = - 5 \<and>
   y_ppr (state_of (MoreSettingsPage_save CONFIG (Some (- 5)) (Some 0))) = 0 \<and>
   x_encoder (state_of (MoreSettingsPage_save CONFIG (Some (- 5)) (Some 0))) = x_encoder CONFIG"
  using save_stores_any_integers [of CONFIG "- 5" 0] by simp

subsection \<open>Reference profiles on file\<close>

lemma get_profile_rows_authored:
  "get_profile_rows (authored prof) (rx, ry) = (rx @ map fst prof, ry @ map snd prof)"
  by (induction prof arbitrary: rx ry) (auto simp: authored_def)

lemma get_profile_authored: "get_profile (authored prof) = (map fst prof, map snd prof)"
  by (simp add: get_profile_def get_profile_rows_authored)

lemma read_csv_to_csv_two:
  assumes "length c1 = length c2"
  shows "read_csv (to_csv \<lparr> labels = [l1, l2], columns = [c1, c2] \<rparr>) = Inr [c1, c2]"
proof -
  have a: "map (\<lambda>i. c1 ! i) [0..<length c1] = c1"
    by (rule map_nth)
  have b: "map (\<lambda>i. c2 ! i) [0..<length c1] = c2"
    using assms map_nth [of c2] by simp
  have two: "[0..<2] = [0, Suc 0]"
    by (simp add: upt_rec)
  show ?thesis
    by (simp add: read_csv_def to_csv_def list_ex_iff two o_def a b)
qed

text \<open>
  Claim C9, as the specification states it, fails for the empty profile: \<^verbatim>\<open>save_csv\<close>
  stops at \<^verbatim>\<open>if not rx\<close> and writes no file, so there is no table to import.
\<close>

theorem save_csv_empty_profile_counterexample:
  "state_of (save_csv Map.empty (authored []) ''profile.csv'') ''profile.csv'' = None \<and>
   open_file (state_of (save_csv Map.empty (authored []) ''profile.csv''))
       LivePage_init ''profile.csv'' =
     Raised FileNotFoundError LivePage_init"
  by (simp add: save_csv_def get_profile_def authored_def open_file_def suffix_to_prefix)

text \<open>
  Claim C9, amended. For every profile of at least one pair, exporting it under a name
  that ends in .csv returns and writes a file whose header is Reference_X, Reference_Y,
  and importing that file returns and makes the X values and the Y values of the profile,
  in order, the reference sequences of the live page.
\<close>

theorem export_then_import_reproduces_profile:
  assumes "prof \<noteq> []" and "suffix ''.csv'' path"
  shows "\<exists>fs' f lp'.
           save_csv fs (authored prof) path = Returned fs' \<and>
           fs' path = Some f \<and> header f = [''Reference_X'', ''Reference_Y''] \<and>
           open_file fs' lp path = Returned lp' \<and>
           ref_x lp' = map fst prof \<and> ref_y lp' = map snd prof"
proof -
  from assms(2) have p: "path \<noteq> []" by auto
  let ?df = "\<lparr> labels = [''Reference_X'', ''Reference_Y''],
               columns = [map fst prof, map snd prof] \<rparr>"
  let ?fs = "fs(path \<mapsto> to_csv ?df)"
  have s: "save_csv fs (authored prof) path = Returned ?fs"
    using assms(1) p by (simp add: save_csv_def get_profile_authored DataFrame_def)
  have h: "header (to_csv ?df) = [''Reference_X'', ''Reference_Y'']"
    by (simp add: to_csv_def)
  have r: "read_csv (to_csv ?df) = Inr [map fst prof, map snd prof]"
    by (rule read_csv_to_csv_two) simp
  have o: "open_file ?fs lp path =
             Returned (set_reference lp (map fst prof) (map snd prof))"
    using assms(2) by (simp add: open_file_def r iloc_def)
  have x: "ref_x (set_reference lp (map fst prof) (map snd prof)) = map fst prof"
          "ref_y (set_reference lp (map fst prof) (map snd prof)) = map snd prof"
    by (simp_all add: set_reference_def update_table_def Let_def)
  from s h o x show ?thesis by simp
qed

text \<open>The profile (0,0), (1,2) saved as profile.csv and opened again.\<close>

theorem export_then_import_reproduces_profile_witness:
  "[(0, 0), (1, 2)] \<noteq> ([] :: (rat \<times> rat) list) \<and> suffix ''.csv'' ''profile.csv'' \<and>
   save_csv Map.empty (authored [(0, 0), (1, 2)]) ''profile.csv'' =
     Returned [''profile.csv'' \<mapsto>
       \<lparr> header = [''Reference_X'', ''Reference_Y''], rows = [[0, 0], [1, 2]] \<rparr>] \<and>
   ref_x (state_of (open_file
       (state_of (save_csv Map.empty (authored [(0, 0), (1, 2)]) ''profile.csv''))
       LivePage_init ''profile.csv'')) = [0, 1] \<and>
   ref_y (state_of (open_file
       (state_of (save_csv Map.empty (authored [(0, 0), (1, 2)]) ''profile.csv''))
       LivePage_init ''profile.csv'')) = [0, 2]"
proof -
  have n: "[(0, 0), (1, 2)] \<noteq> ([] :: (rat \<times> rat) list)" by simp
  have c: "suffix ''.csv'' ''profile.csv''" by (simp add: suffix_to_prefix)
  have w: "save_csv Map.empty (authored [(0, 0), (1, 2)]) ''profile.csv'' =
     Returned [''profile.csv'' \<mapsto>
       \<lparr> header = [''Reference_X'', ''Reference_Y''], rows = [[0, 0], [1, 2]] \<rparr>]"
    by (simp add: save_csv_def get_profile_def authored_def DataFrame_def to_csv_def upt_rec)
  from export_then_import_reproduces_profile [OF n c, of Map.empty LivePage_init]
  obtain fs' f lp' where
    "save_csv Map.empty (authored [(0, 0), (1, 2)]) ''profile.csv'' = Returned fs'"
    "open_file fs' LivePage_init ''profile.csv'' = Returned lp'"
    "ref_x lp' = map fst [(0 :: rat, 0 :: rat), (1, 2)]"
    "ref_y lp' = map snd [(0 :: rat, 0 :: rat), (1, 2)]"
    by blast
  with n c w show ?thesis by simp
qed

end
